theory Spec2Isabelle
  imports Main
begin

section \<open>Values of the runtime\<close>

text \<open>
  A JavaScript string is represented by its UTF-8 encoding, one \<^typ>\<open>char\<close> per byte, and a
  Node \<open>Buffer\<close> by its bytes, so \<open>Buffer.from(s, "utf8")\<close> is the identity. Strings
  holding unpaired surrogates are outside the model. Dates are milliseconds since the
  epoch.
\<close>

type_synonym buffer = "char list"

text \<open>
  The values \<open>JSON.parse\<close> can return. Numbers are kept as integers: the code only
  ever asks whether a parsed value is falsy.
\<close>

datatype json =
    JNull
  | JBool bool
  | JNumber int
  | JString string
  | JArray "json list"
  | JObject "(string \<times> json) list"

text \<open>\<open>shared/schema.ts\<close>: \<open>PasswordField\<close> and \<open>PasswordEntryData\<close>
  (\<open>DecryptedData\<close> of \<open>server/crypto.ts\<close> has the same shape).\<close>

record PasswordField =
  name :: string
  fieldValue :: string
  isPassword :: bool

record PasswordEntryData =
  title :: string
  fields' :: "PasswordField list"

type_synonym DecryptedData = PasswordEntryData

text \<open>The object a typed payload is at run time, which is what \<open>JSON.stringify\<close> receives.\<close>

definition fieldToJson :: "PasswordField \<Rightarrow> json" where
  "fieldToJson f =
     JObject [(''name'', JString (name f)), (''value'', JString (fieldValue f)),
              (''isPassword'', JBool (isPassword f))]"

definition dataToJson :: "PasswordEntryData \<Rightarrow> json" where
  "dataToJson d =
     JObject [(''title'', JString (title d)), (''fields'', JArray (map fieldToJson (fields' d)))]"

text \<open>\<open>server/crypto.ts\<close>: \<open>EncryptedData\<close>, every component base64 text.\<close>

record EncryptedData =
  encryptedData :: string
  salt :: string
  iv :: string
  authTag :: string

subsection \<open>JavaScript operators used by the validation code\<close>

text \<open>\<open>!v\<close> on a parsed value: \<open>null\<close>, \<open>false\<close>, \<open>0\<close> and \<open>""\<close> are falsy.\<close>

fun falsy :: "json \<Rightarrow> bool" where
  "falsy JNull = True"
| "falsy (JBool b) = (\<not> b)"
| "falsy (JNumber n) = (n = 0)"
| "falsy (JString s) = (s = [])"
| "falsy (JArray xs) = False"
| "falsy (JObject kvs) = False"

text \<open>\<open>v.k\<close> for the two keys the code reads; \<open>None\<close> is \<open>undefined\<close>. Only an object
  made by \<open>JSON.parse\<close> carries a \<open>title\<close> or a \<open>fields\<close> property, and it has
  every key once.\<close>

fun getProp :: "json \<Rightarrow> string \<Rightarrow> json option" where
  "getProp (JObject kvs) k = map_of kvs k"
| "getProp v k = None"

text \<open>\<open>typeof x === "string"\<close> and \<open>Array.isArray(x)\<close>.\<close>

fun isStringValue :: "json option \<Rightarrow> bool" where
  "isStringValue (Some (JString s)) = True"
| "isStringValue x = False"

fun isArray :: "json option \<Rightarrow> bool" where
  "isArray (Some (JArray xs)) = True"
| "isArray x = False"

text \<open>\<open>s.split(sep)\<close> for a one-character separator: never empty, \<open>"".split(":")\<close> is
  \<open>[""]\<close>.\<close>

fun splitString :: "char \<Rightarrow> string \<Rightarrow> string list" where
  "splitString sep [] = [] # []"
| "splitString sep (c # cs) =
     (if c = sep then [] # splitString sep cs
      else (case splitString sep cs of
              w # ws \<Rightarrow> (c # w) # ws
            | [] \<Rightarrow> [c] # []))"

text \<open>Array destructuring \<open>const [a, b, c] = xs\<close>: a missing position is \<open>undefined\<close>.\<close>

definition at :: "'a list \<Rightarrow> nat \<Rightarrow> 'a option" where
  "at xs i = (if i < length xs then Some (xs ! i) else None)"

text \<open>\<open>!x\<close> on a destructured string: \<open>undefined\<close> and \<open>""\<close> are falsy.\<close>

fun missing :: "string option \<Rightarrow> bool" where
  "missing None = True"
| "missing (Some s) = (s = [])"

section \<open>Library primitives\<close>

text \<open>
  The functions of Node's \<open>crypto\<close> module, of \<open>bcryptjs\<close> and the \<open>JSON\<close> object are
  not part of the repository. They are parameters of the model:
  \<^item> \<open>sha256\<close> and \<open>pbkdf2F\<close>: the hash and the iterated part of PBKDF2, see
    \<open>pbkdf2Sync\<close> below;
  \<^item> \<open>gcmEncrypt key iv aad plaintext\<close>: \<open>createCipheriv("aes-256-gcm", key, iv)\<close>,
    \<open>setAAD\<close>, \<open>update\<close>, \<open>final\<close>, \<open>getAuthTag\<close>; the result is ciphertext and tag;
  \<^item> \<open>gcmDecrypt key iv aad ciphertext tag\<close>: \<open>createDecipheriv\<close>, \<open>setAAD\<close>,
    \<open>setAuthTag\<close>, \<open>update\<close>, \<open>final\<close>; \<open>None\<close> when any of them throws (a tag that
    does not verify, an initialisation vector or tag of a length the cipher refuses);
  \<^item> \<open>toBase64\<close>, \<open>fromBase64\<close>: \<open>buf.toString("base64")\<close> and
    \<open>Buffer.from(s, "base64")\<close>;
  \<^item> \<open>jsonStringify\<close>, \<open>jsonParse\<close>: \<open>None\<close> is a \<open>SyntaxError\<close>;
  \<^item> \<open>bcryptHash password salt\<close>, \<open>bcryptCompare input storedHash\<close>.
  Random draws (\<open>randomBytes\<close>, \<open>randomUUID\<close>, \<open>bcrypt.genSalt\<close>) are explicit
  arguments of the functions that make them.
\<close>

record prims =
  sha256 :: "buffer \<Rightarrow> buffer"
  pbkdf2F :: "buffer \<Rightarrow> buffer \<Rightarrow> nat \<Rightarrow> nat \<Rightarrow> buffer"
  gcmEncrypt :: "buffer \<Rightarrow> buffer \<Rightarrow> buffer \<Rightarrow> string \<Rightarrow> buffer \<times> buffer"
  gcmDecrypt :: "buffer \<Rightarrow> buffer \<Rightarrow> buffer \<Rightarrow> buffer \<Rightarrow> buffer \<Rightarrow> string option"
  toBase64 :: "buffer \<Rightarrow> string"
  fromBase64 :: "string \<Rightarrow> buffer"
  jsonStringify :: "json \<Rightarrow> string"
  jsonParse :: "string \<Rightarrow> json option"
  bcryptHash :: "string \<Rightarrow> string \<Rightarrow> string"
  bcryptCompare :: "string \<Rightarrow> string \<Rightarrow> bool"

text \<open>
  \<open>crypto.pbkdf2Sync(password, salt, iterations, keylen, "sha256")\<close> is PBKDF2
  (RFC 8018) with HMAC-SHA256 as its pseudo-random function, keyed by the password.
  HMAC (RFC 2104, section 2) first brings its key to one block of 64 bytes: a longer key
  is replaced by its hash, and the result is filled up with zero bytes. Everything after
  that step is the parameter \<open>pbkdf2F\<close>.
\<close>

definition hmacKey :: "prims \<Rightarrow> buffer \<Rightarrow> buffer" where
  "hmacKey P k =
     (let k0 = (if length k > 64 then sha256 P k else k)
      in k0 @ replicate (64 - length k0) (CHR 0x00))"

definition pbkdf2Sync :: "prims \<Rightarrow> string \<Rightarrow> buffer \<Rightarrow> nat \<Rightarrow> nat \<Rightarrow> buffer" where
  "pbkdf2Sync P password saltBuffer iterations keylen =
     pbkdf2F P (hmacKey P password) saltBuffer iterations keylen"

section \<open>\<open>server/crypto.ts\<close>\<close>

definition PBKDF2_ITERATIONS :: nat where "PBKDF2_ITERATIONS = 100000"
definition SALT_LENGTH :: nat where "SALT_LENGTH = 32"
definition IV_LENGTH :: nat where "IV_LENGTH = 12"
definition KEY_LENGTH :: nat where "KEY_LENGTH = 32"

text \<open>What the functions throw. Each of them catches whatever is raised inside and throws
  one \<open>Error\<close> whose message starts with its own prefix and ends with the message of
  the cause.\<close>

datatype cause =
    CipherFailure    \<comment> \<open>thrown by the decipher\<close>
  | JsonSyntax       \<comment> \<open>\<open>SyntaxError\<close> of \<open>JSON.parse\<close>\<close>
  | InvalidStructure \<comment> \<open>"Invalid decrypted data structure"\<close>
  | InvalidFormat    \<comment> \<open>"Invalid encrypted session data format"\<close>

datatype error =
    DecryptionFailed cause          \<comment> \<open>"Decryption failed: ..."\<close>
  | SessionDecryptionFailed cause   \<comment> \<open>"Session decryption failed: ..."\<close>
  | InvalidMasterPassword           \<comment> \<open>"Invalid master password - session creation denied"\<close>
  | InvalidSession                  \<comment> \<open>"Invalid session - access denied"\<close>
  | InvalidOrExpiredSession         \<comment> \<open>"Invalid or expired session"\<close>
  | MasterPasswordExists            \<comment> \<open>"Master password already exists"\<close>
  | DatabaseError                   \<comment> \<open>a uniqueness constraint of the schema refused an insert\<close>

text \<open>The names the specification gives to these errors (its section 7).\<close>

datatype errorKind =
    IntegrityError | FormatError | AuthenticationError | InvalidSessionError
  | AlreadyConfiguredError | StorageError

fun kind :: "error \<Rightarrow> errorKind" where
  "kind (DecryptionFailed CipherFailure) = IntegrityError"
| "kind (DecryptionFailed c) = FormatError"
| "kind (SessionDecryptionFailed CipherFailure) = IntegrityError"
| "kind (SessionDecryptionFailed c) = FormatError"
| "kind InvalidMasterPassword = AuthenticationError"
| "kind InvalidSession = InvalidSessionError"
| "kind InvalidOrExpiredSession = InvalidSessionError"
| "kind MasterPasswordExists = AlreadyConfiguredError"
| "kind DatabaseError = StorageError"

text \<open>\<open>generateSalt\<close>, \<open>generateIV\<close>: the argument is the outcome of
  \<open>crypto.randomBytes(SALT_LENGTH)\<close>, respectively \<open>crypto.randomBytes(IV_LENGTH)\<close>.\<close>

definition generateSalt :: "prims \<Rightarrow> buffer \<Rightarrow> string" where
  "generateSalt P randomBytes = toBase64 P randomBytes"

definition generateIV :: "prims \<Rightarrow> buffer \<Rightarrow> string" where
  "generateIV P randomBytes = toBase64 P randomBytes"

definition deriveKey :: "prims \<Rightarrow> string \<Rightarrow> string \<Rightarrow> buffer" where
  "deriveKey P masterPassword salt' =
     (let saltBuffer = fromBase64 P salt'
      in pbkdf2Sync P masterPassword saltBuffer PBKDF2_ITERATIONS KEY_LENGTH)"

text \<open>
  \<open>encryptPasswordEntry\<close>. \<open>rndSalt\<close> and \<open>rndIV\<close> are the two random draws. With a
  key of \<open>KEY_LENGTH\<close> bytes, an initialisation vector of \<open>IV_LENGTH\<close> bytes and a
  payload of the declared type nothing inside the \<open>try\<close> block throws, so the function
  returns an envelope.
\<close>

definition encryptPasswordEntry ::
  "prims \<Rightarrow> buffer \<Rightarrow> buffer \<Rightarrow> DecryptedData \<Rightarrow> string \<Rightarrow> EncryptedData" where
  "encryptPasswordEntry P rndSalt rndIV data masterPassword =
     (let salt = generateSalt P rndSalt;
          iv = generateIV P rndIV;
          key = deriveKey P masterPassword salt;
          ivBuffer = fromBase64 P iv;
          dataString = jsonStringify P (dataToJson data);
          (encrypted, tag) = gcmEncrypt P key ivBuffer (fromBase64 P salt) dataString
      in \<lparr>encryptedData = toBase64 P encrypted, salt = salt, iv = iv,
          authTag = toBase64 P tag\<rparr>)"

text \<open>
  \<open>decryptPasswordEntry\<close>. The result is the parsed value itself: the cast
  \<open>as DecryptedData\<close> checks nothing at run time, and the only checks made are the three
  of the "Basic validation" line.
\<close>

definition decryptPasswordEntry :: "prims \<Rightarrow> EncryptedData \<Rightarrow> string \<Rightarrow> error + json" where
  "decryptPasswordEntry P encrypted masterPassword =
     (let key = deriveKey P masterPassword (salt encrypted);
          ivBuffer = fromBase64 P (iv encrypted)
      in case gcmDecrypt P key ivBuffer (fromBase64 P (salt encrypted))
                (fromBase64 P (encryptedData encrypted)) (fromBase64 P (authTag encrypted)) of
           None \<Rightarrow> Inl (DecryptionFailed CipherFailure)
         | Some decrypted \<Rightarrow>
             (case jsonParse P decrypted of
                None \<Rightarrow> Inl (DecryptionFailed JsonSyntax)
              | Some data \<Rightarrow>
                  if falsy data \<or> \<not> isStringValue (getProp data ''title'')
                       \<or> \<not> isArray (getProp data ''fields'')
                  then Inl (DecryptionFailed InvalidStructure)
                  else Inr data))"

text \<open>
  \<open>encryptMasterPasswordForSession\<close>. The session key is derived from the master
  password itself and the fresh session salt; no additional authenticated data is set.
  The result is the pair \<open>(encryptedMasterPassword, sessionSalt)\<close>.
\<close>

definition encryptMasterPasswordForSession ::
  "prims \<Rightarrow> buffer \<Rightarrow> buffer \<Rightarrow> string \<Rightarrow> string \<times> string" where
  "encryptMasterPasswordForSession P rndSalt rndIV masterPassword =
     (let sessionSalt = generateSalt P rndSalt;
          iv = generateIV P rndIV;
          sessionKey = pbkdf2Sync P masterPassword (fromBase64 P sessionSalt)
                         PBKDF2_ITERATIONS KEY_LENGTH;
          ivBuffer = fromBase64 P iv;
          (encrypted, tag) = gcmEncrypt P sessionKey ivBuffer [] masterPassword;
          authTag = toBase64 P tag;
          encryptedMasterPassword = toBase64 P encrypted @ '':'' @ iv @ '':'' @ authTag
      in (encryptedMasterPassword, sessionSalt))"

text \<open>
  \<open>decryptMasterPasswordFromSession\<close>. The session key is derived from the session
  token and the stored session salt.
\<close>

definition decryptMasterPasswordFromSession ::
  "prims \<Rightarrow> string \<Rightarrow> string \<Rightarrow> string \<Rightarrow> error + string" where
  "decryptMasterPasswordFromSession P encryptedMasterPassword sessionSalt sessionToken =
     (let parts = splitString (CHR '':'') encryptedMasterPassword;
          encrypted = at parts 0; iv = at parts 1; authTag = at parts 2
      in if missing encrypted \<or> missing iv \<or> missing authTag
         then Inl (SessionDecryptionFailed InvalidFormat)
         else
           (let sessionKey = pbkdf2Sync P sessionToken (fromBase64 P sessionSalt)
                               PBKDF2_ITERATIONS KEY_LENGTH;
                ivBuffer = fromBase64 P (case iv of Some s \<Rightarrow> s | None \<Rightarrow> [])
            in case gcmDecrypt P sessionKey ivBuffer []
                      (fromBase64 P (case encrypted of Some s \<Rightarrow> s | None \<Rightarrow> []))
                      (fromBase64 P (case authTag of Some s \<Rightarrow> s | None \<Rightarrow> [])) of
                 None \<Rightarrow> Inl (SessionDecryptionFailed CipherFailure)
               | Some decrypted \<Rightarrow> Inr decrypted))"

text \<open>\<open>hashMasterPassword\<close>: \<open>rndSalt\<close> is the outcome of \<open>bcrypt.genSalt(BCRYPT_ROUNDS)\<close>;
  the result is the pair \<open>(hashedPassword, salt)\<close>.\<close>

definition hashMasterPassword :: "prims \<Rightarrow> string \<Rightarrow> string \<Rightarrow> string \<times> string" where
  "hashMasterPassword P rndSalt password = (bcryptHash P password rndSalt, rndSalt)"

definition verifyMasterPassword :: "prims \<Rightarrow> string \<Rightarrow> string \<Rightarrow> bool" where
  "verifyMasterPassword P inputPassword storedHash = bcryptCompare P inputPassword storedHash"

section \<open>\<open>shared/schema.ts\<close>: the tables\<close>

record MasterPassword =
  id' :: string
  hashedPassword :: string
  salt :: string
  createdAt :: int

record Session =
  id' :: string
  sessionToken :: string
  encryptedMasterPassword :: string
  sessionSalt :: string
  createdAt :: int
  expiresAt :: int
  isActive :: bool

record PasswordEntry =
  id' :: string
  encryptedData :: string
  salt :: string
  iv :: string
  authTag :: string
  createdAt :: int
  expiresAt :: int
  isDeleted :: bool

text \<open>The database: the rows of each table, in insertion order.\<close>

record store =
  masterPasswordTable :: "MasterPassword list"
  sessionsTable :: "Session list"
  passwordEntriesTable :: "PasswordEntry list"

definition emptyStore :: store where
  "emptyStore = \<lparr>masterPasswordTable = [], sessionsTable = [], passwordEntriesTable = []\<rparr>"

text \<open>\<open>db.insert(t).values(row)\<close>. \<open>id\<close> is the primary key of every table and
  \<open>session_token\<close> is declared \<open>unique()\<close>; an insert that breaks one of them is
  refused by the database and the rejection reaches the caller.\<close>

definition insertMasterPassword :: "store \<Rightarrow> MasterPassword \<Rightarrow> store option" where
  "insertMasterPassword st row =
     (if MasterPassword.id' row \<in> MasterPassword.id' ` set (masterPasswordTable st) then None
      else Some (st\<lparr>masterPasswordTable := masterPasswordTable st @ [row]\<rparr>))"

definition insertSession :: "store \<Rightarrow> Session \<Rightarrow> store option" where
  "insertSession st row =
     (if Session.id' row \<in> Session.id' ` set (sessionsTable st)
         \<or> sessionToken row \<in> sessionToken ` set (sessionsTable st) then None
      else Some (st\<lparr>sessionsTable := sessionsTable st @ [row]\<rparr>))"

definition insertPasswordEntry :: "store \<Rightarrow> PasswordEntry \<Rightarrow> store option" where
  "insertPasswordEntry st row =
     (if PasswordEntry.id' row \<in> PasswordEntry.id' ` set (passwordEntriesTable st) then None
      else Some (st\<lparr>passwordEntriesTable := passwordEntriesTable st @ [row]\<rparr>))"

section \<open>\<open>server/storage.ts\<close>: \<open>DatabaseStorage\<close>\<close>

text \<open>
  Every method takes the store and the reading of the clock (\<open>NOW()\<close> of the database,
  \<open>new Date()\<close> of the server) and, when it writes, returns the store it leaves behind
  together with its result or the error it throws.
\<close>

definition getMasterPassword :: "store \<Rightarrow> MasterPassword option" where
  "getMasterPassword st = (case masterPasswordTable st of [] \<Rightarrow> None | r # rs \<Rightarrow> Some r)"

definition createMasterPassword ::
  "string \<Rightarrow> int \<Rightarrow> store \<Rightarrow> string \<times> string \<Rightarrow> store \<times> (error + MasterPassword)" where
  "createMasterPassword rndId now st masterPasswordData =
     (let masterPasswordRecord =
            \<lparr>MasterPassword.id' = rndId, hashedPassword = fst masterPasswordData,
             salt = snd masterPasswordData, createdAt = now\<rparr>
      in case insertMasterPassword st masterPasswordRecord of
           None \<Rightarrow> (st, Inl DatabaseError)
         | Some st' \<Rightarrow> (st', Inr masterPasswordRecord))"

definition storageVerifyMasterPassword :: "prims \<Rightarrow> store \<Rightarrow> string \<Rightarrow> bool" where
  "storageVerifyMasterPassword P st inputPassword =
     (case getMasterPassword st of
        None \<Rightarrow> False
      | Some masterPasswordRecord \<Rightarrow>
          verifyMasterPassword P inputPassword (hashedPassword masterPasswordRecord))"

text \<open>The random draws of \<open>createSession\<close>: three \<open>randomUUID()\<close> calls and the two
  \<open>randomBytes\<close> calls of \<open>encryptMasterPasswordForSession\<close>.\<close>

record sessionDraws =
  tokenUuid1 :: string
  tokenUuid2 :: string
  sessionUuid :: string
  saltBytes :: buffer
  ivBytes :: buffer

definition createSession ::
  "prims \<Rightarrow> sessionDraws \<Rightarrow> int \<Rightarrow> store \<Rightarrow> string \<Rightarrow> store \<times> (error + string \<times> int)" where
  "createSession P rnd now st masterPassword =
     (if \<not> storageVerifyMasterPassword P st masterPassword then (st, Inl InvalidMasterPassword)
      else
        (let sessionToken = tokenUuid1 rnd @ ''-'' @ tokenUuid2 rnd;
             createdAt = now;
             expiresAt = createdAt + 4 * 60 * 60 * 1000;
             (encryptedMasterPassword, sessionSalt) =
                encryptMasterPasswordForSession P (saltBytes rnd) (ivBytes rnd) masterPassword;
             session = \<lparr>Session.id' = sessionUuid rnd, sessionToken = sessionToken,
                        encryptedMasterPassword = encryptedMasterPassword,
                        sessionSalt = sessionSalt, createdAt = createdAt,
                        expiresAt = expiresAt, isActive = True\<rparr>
         in case insertSession st session of
              None \<Rightarrow> (st, Inl DatabaseError)
            | Some st' \<Rightarrow> (st', Inr (sessionToken, expiresAt))))"

text \<open>\<open>verifySession\<close>: the \<open>select\<close> with its three conditions, \<open>limit(1)\<close>, and
  \<open>session.length > 0\<close>.\<close>

definition verifySession :: "store \<Rightarrow> int \<Rightarrow> string \<Rightarrow> bool" where
  "verifySession st now token =
     (let session = take 1 (filter (\<lambda>s. Session.sessionToken s = token \<and> Session.isActive s
                                         \<and> Session.expiresAt s > now) (sessionsTable st))
      in length session > 0)"

definition getMasterPasswordFromSession :: "prims \<Rightarrow> store \<Rightarrow> int \<Rightarrow> string \<Rightarrow> error + string" where
  "getMasterPasswordFromSession P st now token =
     (let sessionResult = take 1 (filter (\<lambda>s. Session.sessionToken s = token \<and> Session.isActive s
                                               \<and> Session.expiresAt s > now) (sessionsTable st))
      in case sessionResult of
           [] \<Rightarrow> Inl InvalidOrExpiredSession
         | session # rest \<Rightarrow>
             decryptMasterPasswordFromSession P (Session.encryptedMasterPassword session)
               (Session.sessionSalt session) token)"

text \<open>\<open>createPasswordEntry\<close>: \<open>rndId\<close> is the \<open>randomUUID()\<close>, \<open>rndSalt\<close> and \<open>rndIV\<close>
  are the draws of \<open>encryptPasswordEntry\<close>.\<close>

definition createPasswordEntry ::
  "prims \<Rightarrow> string \<Rightarrow> buffer \<Rightarrow> buffer \<Rightarrow> int \<Rightarrow> store \<Rightarrow> PasswordEntryData \<Rightarrow> string
     \<Rightarrow> store \<times> (error + PasswordEntry)" where
  "createPasswordEntry P rndId rndSalt rndIV now st entryData token =
     (if \<not> verifySession st now token then (st, Inl InvalidSession)
      else case getMasterPasswordFromSession P st now token of
             Inl e \<Rightarrow> (st, Inl e)
           | Inr masterPassword \<Rightarrow>
               (let expiresAt = now + 24 * 60 * 60 * 1000;
                    encrypted = encryptPasswordEntry P rndSalt rndIV entryData masterPassword;
                    entry = \<lparr>PasswordEntry.id' = rndId,
                             encryptedData = EncryptedData.encryptedData encrypted,
                             salt = EncryptedData.salt encrypted,
                             iv = EncryptedData.iv encrypted,
                             authTag = EncryptedData.authTag encrypted,
                             createdAt = now, expiresAt = expiresAt, isDeleted = False\<rparr>
                in case insertPasswordEntry st entry of
                     None \<Rightarrow> (st, Inl DatabaseError)
                   | Some st' \<Rightarrow> (st', Inr entry)))"

text \<open>
  The loop of \<open>getAllPasswordEntries\<close>: an entry whose decryption throws is skipped. After
  the validation of \<open>decryptPasswordEntry\<close> both properties exist, so the last case
  never applies.
\<close>

fun decryptEntries :: "prims \<Rightarrow> string \<Rightarrow> PasswordEntry list \<Rightarrow> json list" where
  "decryptEntries P masterPassword [] = []"
| "decryptEntries P masterPassword (entry # activeEntries) =
     (let encryptedData = \<lparr>EncryptedData.encryptedData = PasswordEntry.encryptedData entry,
                            salt = PasswordEntry.salt entry, iv = PasswordEntry.iv entry,
                            authTag = PasswordEntry.authTag entry\<rparr>
      in case decryptPasswordEntry P encryptedData masterPassword of
           Inl e \<Rightarrow> decryptEntries P masterPassword activeEntries
         | Inr decryptedData \<Rightarrow>
             (case (getProp decryptedData ''title'', getProp decryptedData ''fields'') of
                (Some t, Some fs) \<Rightarrow>
                  JObject [(''title'', t), (''fields'', fs)]
                    # decryptEntries P masterPassword activeEntries
              | other \<Rightarrow> decryptEntries P masterPassword activeEntries))"

text \<open>\<open>getAllPasswordEntries\<close>. \<open>ORDER BY created_at DESC\<close> is the reverse of a stable
  ascending sort; SQL leaves the order of rows with equal \<open>created_at\<close> open.\<close>

definition getAllPasswordEntries :: "prims \<Rightarrow> store \<Rightarrow> int \<Rightarrow> string \<Rightarrow> error + json list" where
  "getAllPasswordEntries P st now token =
     (if \<not> verifySession st now token then Inl InvalidSession
      else case getMasterPasswordFromSession P st now token of
             Inl e \<Rightarrow> Inl e
           | Inr masterPassword \<Rightarrow>
               (let activeEntries =
                      rev (sort_key PasswordEntry.createdAt
                             (filter (\<lambda>e. PasswordEntry.isDeleted e = False
                                           \<and> PasswordEntry.expiresAt e > now)
                                (passwordEntriesTable st)))
                in Inr (decryptEntries P masterPassword activeEntries)))"

text \<open>\<open>deleteAllPasswordEntries\<close>: the \<open>update\<close> sets \<open>isDeleted\<close> on the rows selected by
  \<open>eq(passwordEntries.isDeleted, false)\<close> and on no others.\<close>

definition deleteAllPasswordEntries :: "store \<Rightarrow> int \<Rightarrow> string \<Rightarrow> store \<times> (error + unit)" where
  "deleteAllPasswordEntries st now token =
     (if \<not> verifySession st now token then (st, Inl InvalidSession)
      else (st\<lparr>passwordEntriesTable :=
                 map (\<lambda>e. if PasswordEntry.isDeleted e = False
                           then e\<lparr>PasswordEntry.isDeleted := True\<rparr> else e)
                   (passwordEntriesTable st)\<rparr>, Inr ()))"

text \<open>\<open>setupMasterPassword\<close>: \<open>rndSalt\<close> is the bcrypt salt drawn, \<open>rndId\<close> the
  \<open>randomUUID()\<close> of \<open>createMasterPassword\<close>.\<close>

definition setupMasterPassword ::
  "prims \<Rightarrow> string \<Rightarrow> string \<Rightarrow> int \<Rightarrow> store \<Rightarrow> string \<Rightarrow> store \<times> (error + MasterPassword)" where
  "setupMasterPassword P rndSalt rndId now st password =
     (case getMasterPassword st of
        Some existing \<Rightarrow> (st, Inl MasterPasswordExists)
      | None \<Rightarrow> createMasterPassword rndId now st (hashMasterPassword P rndSalt password))"

section \<open>What is assumed of the primitives\<close>

text \<open>
  What the theorems below name as hypotheses. The first three items are facts about the
  real libraries; the fourth is a condition on a single call; the last idealises the
  cipher.
  \<^item> Decoding base64 text gives back the bytes that were encoded, and base64 text has no
    colon in it.
  \<^item> PBKDF2 returns as many bytes as are asked for.
  \<^item> With a key of \<open>KEY_LENGTH\<close> bytes and an initialisation vector of \<open>IV_LENGTH\<close> bytes,
    AES-GCM decrypts what it encrypted under the same key, vector and additional data.
  \<^item> \<open>cipherRefuses P key key' iv aad pt\<close> speaks of one call: the decipher, keyed with
    \<open>key'\<close>, throws on the ciphertext and tag that the cipher produced for \<open>pt\<close> under
    \<open>key\<close>. For two different keys AES-GCM does so except with the probability of a
    forged tag.
  \<^item> \<open>aead_key_committing\<close>: the decipher refuses, under every key other than the one that
    made them, a ciphertext and its tag, whatever the vector, the additional data and the
    plaintext. This is the perfect-cipher reading of authenticated encryption; AES-GCM
    meets it up to the probability of a forged tag.
\<close>

definition base64_roundtrip :: "prims \<Rightarrow> bool" where
  "base64_roundtrip P = (\<forall>b. fromBase64 P (toBase64 P b) = b)"

definition base64_alphabet :: "prims \<Rightarrow> bool" where
  "base64_alphabet P = (\<forall>b. CHR '':'' \<notin> set (toBase64 P b))"

definition kdf_length :: "prims \<Rightarrow> bool" where
  "kdf_length P = (\<forall>k s i n. length (pbkdf2F P k s i n) = n)"

definition aead_correct :: "prims \<Rightarrow> bool" where
  "aead_correct P =
     (\<forall>key iv' aad pt. length key = KEY_LENGTH \<longrightarrow> length iv' = IV_LENGTH \<longrightarrow>
        gcmDecrypt P key iv' aad (fst (gcmEncrypt P key iv' aad pt))
          (snd (gcmEncrypt P key iv' aad pt)) = Some pt)"

definition cipherRefuses ::
  "prims \<Rightarrow> buffer \<Rightarrow> buffer \<Rightarrow> buffer \<Rightarrow> buffer \<Rightarrow> string \<Rightarrow> bool" where
  "cipherRefuses P key key' iv' aad pt =
     (gcmDecrypt P key' iv' aad (fst (gcmEncrypt P key iv' aad pt))
        (snd (gcmEncrypt P key iv' aad pt)) = None)"

definition aead_key_committing :: "prims \<Rightarrow> bool" where
  "aead_key_committing P =
     (\<forall>key key' iv' aad pt. key' \<noteq> key \<longrightarrow> cipherRefuses P key key' iv' aad pt)"

section \<open>Envelopes of arbitrary values\<close>

text \<open>
  What \<open>encryptPasswordEntry\<close> computes when it is handed an arbitrary value: types are
  erased at run time, and any writer holding the secret can store such an envelope.
\<close>

definition sealValue :: "prims \<Rightarrow> buffer \<Rightarrow> buffer \<Rightarrow> json \<Rightarrow> string \<Rightarrow> EncryptedData" where
  "sealValue P rndSalt rndIV v masterPassword =
     (let salt = generateSalt P rndSalt;
          iv = generateIV P rndIV;
          key = deriveKey P masterPassword salt;
          ivBuffer = fromBase64 P iv;
          dataString = jsonStringify P v;
          (encrypted, tag) = gcmEncrypt P key ivBuffer (fromBase64 P salt) dataString
      in \<lparr>EncryptedData.encryptedData = toBase64 P encrypted, salt = salt, iv = iv,
          authTag = toBase64 P tag\<rparr>)"

section \<open>An instance of the primitives\<close>

text \<open>
  A small executable instance, on which the code can be run and which meets the
  assumptions above. It makes no attempt at secrecy: the ciphertext is the reversed
  plaintext and the tag lists key, vector, additional data and plaintext; the key
  derivation keeps the first 16 bytes of the HMAC key block and of the salt; the text
  encoding only escapes \<open>:\<close> and \<open>=\<close>; the serializer writes every number other than 0 as 1 and escapes
  nothing, and the parser knows the texts of the three values used in the examples.
\<close>

definition modelToBase64 :: "buffer \<Rightarrow> string" where
  "modelToBase64 b =
     concat (map (\<lambda>c. if c = CHR '':'' then ''=c'' else if c = CHR ''='' then ''=e'' else [c]) b)"

fun modelFromBase64 :: "string \<Rightarrow> buffer" where
  "modelFromBase64 [] = []"
| "modelFromBase64 [c] = (if c = CHR ''='' then [] else [c])"
| "modelFromBase64 (c # x # rest) =
     (if c = CHR ''='' then (if x = CHR ''c'' then CHR '':'' else CHR ''='') # modelFromBase64 rest
      else c # modelFromBase64 (x # rest))"

definition modelGcmEncrypt :: "buffer \<Rightarrow> buffer \<Rightarrow> buffer \<Rightarrow> string \<Rightarrow> buffer \<times> buffer" where
  "modelGcmEncrypt key iv' aad pt = (rev pt, key @ iv' @ aad @ pt)"

definition modelGcmDecrypt ::
  "buffer \<Rightarrow> buffer \<Rightarrow> buffer \<Rightarrow> buffer \<Rightarrow> buffer \<Rightarrow> string option" where
  "modelGcmDecrypt key iv' aad ct tag =
     (if tag = key @ iv' @ aad @ rev ct then Some (rev ct) else None)"

fun commaSeparated :: "string list \<Rightarrow> string" where
  "commaSeparated [] = []"
| "commaSeparated [s] = s"
| "commaSeparated (s # t # ss) = s @ '','' @ commaSeparated (t # ss)"

primrec modelStringify :: "json \<Rightarrow> string" where
  "modelStringify JNull = ''null''"
| "modelStringify (JBool b) = (if b then ''true'' else ''false'')"
| "modelStringify (JNumber n) = (if n = 0 then ''0'' else ''1'')"
| "modelStringify (JString s) = ''\"'' @ s @ ''\"''"
| "modelStringify (JArray xs) = ''['' @ commaSeparated (map modelStringify xs) @ '']''"
| "modelStringify (JObject kvs) =
     ''{'' @ commaSeparated (map (\<lambda>(k, s). ''\"'' @ k @ ''\":'' @ s)
                               (map (map_prod id modelStringify) kvs)) @ ''}''"

definition mailEntry :: PasswordEntryData where
  "mailEntry = \<lparr>title = ''Mail'',
                 fields' = [\<lparr>name = ''user'', fieldValue = ''a@b.com'', isPassword = False\<rparr>]\<rparr>"

text \<open>A value with a title and a list of fields, whose one field has neither a value nor
  a flag.\<close>

definition looseValue :: json where
  "looseValue = JObject [(''title'', JString ''Mail''),
                         (''fields'', JArray [JObject [(''name'', JString ''user'')]])]"

text \<open>A value with a title and no fields.\<close>

definition titleOnlyValue :: json where
  "titleOnlyValue = JObject [(''title'', JString ''Mail'')]"

definition modelParse :: "string \<Rightarrow> json option" where
  "modelParse s =
     find (\<lambda>v. modelStringify v = s) [dataToJson mailEntry, looseValue, titleOnlyValue]"

fun startsWith :: "string \<Rightarrow> string \<Rightarrow> bool" where
  "startsWith [] s = True"
| "startsWith (p # ps) [] = False"
| "startsWith (p # ps) (c # cs) = (p = c \<and> startsWith ps cs)"

definition modelPrims :: prims where
  "modelPrims =
     \<lparr>sha256 = (\<lambda>b. take 32 (b @ replicate 32 (CHR 0x00))),
      pbkdf2F = (\<lambda>k s i n. take n (take 16 k @ s @ replicate n (CHR 0x00))),
      gcmEncrypt = modelGcmEncrypt,
      gcmDecrypt = modelGcmDecrypt,
      toBase64 = modelToBase64,
      fromBase64 = modelFromBase64,
      jsonStringify = modelStringify,
      jsonParse = modelParse,
      bcryptHash = (\<lambda>password s. password @ ''$'' @ s),
      bcryptCompare = (\<lambda>input stored. startsWith (input @ ''$'') stored)\<rparr>"

subsection \<open>Concrete inputs\<close>

definition salt0 :: buffer where "salt0 = ''0123456789abcdef0123456789abcdef''"

definition iv0 :: buffer where "iv0 = ''abcdefghijkl''"

definition draws0 :: sessionDraws where
  "draws0 = \<lparr>tokenUuid1 = ''11111111-1111-4111-8111-111111111111'',
              tokenUuid2 = ''22222222-2222-4222-8222-222222222222'',
              sessionUuid = ''33333333-3333-4333-8333-333333333333'',
              saltBytes = salt0, ivBytes = iv0\<rparr>"

definition token0 :: string where
  "token0 = ''11111111-1111-4111-8111-111111111111-22222222-2222-4222-8222-222222222222''"

text \<open>A store with one live session and one entry that expired at time 50 and was never
  deleted; a store with a configured master password.\<close>

definition session0 :: Session where
  "session0 = \<lparr>Session.id' = ''s-1'', sessionToken = ''tok'', encryptedMasterPassword = ''x:y:z'',
                sessionSalt = ''salt'', createdAt = 0, expiresAt = 14400000, isActive = True\<rparr>"

definition entry0 :: PasswordEntry where
  "entry0 = \<lparr>PasswordEntry.id' = ''e-1'', encryptedData = ''data'', salt = ''salt'', iv = ''iv'',
              authTag = ''tag'', createdAt = 0, expiresAt = 50, isDeleted = False\<rparr>"

definition store0 :: store where
  "store0 = \<lparr>masterPasswordTable = [], sessionsTable = [session0],
              passwordEntriesTable = [entry0]\<rparr>"

definition store1 :: store where
  "store1 = \<lparr>masterPasswordTable =
                [\<lparr>MasterPassword.id' = ''m-1'', hashedPassword = ''Sup3rSecret!$bsalt'',
                  salt = ''bsalt'', createdAt = 0\<rparr>],
              sessionsTable = [], passwordEntriesTable = []\<rparr>"


section \<open>Properties\<close>

subsection \<open>Auxiliary facts\<close>

lemma splitString_nonempty: "splitString sep s \<noteq> []"
  by (induction s) (auto split: list.splits)

lemma splitString_no_sep: "sep \<notin> set s \<Longrightarrow> splitString sep s = [s]"
  by (induction s) auto

lemma splitString_append:
  "sep \<notin> set a \<Longrightarrow> splitString sep (a @ sep # rest) = a # splitString sep rest"
  by (induction a) auto

lemma take1_filter_length: "(length (take 1 (filter p xs)) > 0) = (\<exists>x \<in> set xs. p x)"
proof -
  have "(length (take 1 (filter p xs)) > 0) = (filter p xs \<noteq> [])"
    by (cases "filter p xs") simp_all
  then show ?thesis by (simp add: filter_empty_conv)
qed

lemma deriveKey_length: "kdf_length P \<Longrightarrow> length (deriveKey P S s) = KEY_LENGTH"
  by (simp add: deriveKey_def pbkdf2Sync_def kdf_length_def Let_def)

lemma deriveKey_encoded_salt:
  "base64_roundtrip P \<Longrightarrow>
   deriveKey P S (toBase64 P b) = pbkdf2Sync P S b PBKDF2_ITERATIONS KEY_LENGTH"
  by (simp add: deriveKey_def base64_roundtrip_def)

lemma falsy_getProp: "falsy v \<Longrightarrow> getProp v k = None"
  by (cases v) simp_all

lemma isStringValue_iff: "isStringValue x \<longleftrightarrow> (\<exists>s. x = Some (JString s))"
  by (cases x rule: isStringValue.cases) simp_all

lemma isArray_iff: "isArray x \<longleftrightarrow> (\<exists>xs. x = Some (JArray xs))"
  by (cases x rule: isArray.cases) simp_all

lemma encryptPasswordEntry_sealValue:
  "encryptPasswordEntry P rndSalt rndIV d S = sealValue P rndSalt rndIV (dataToJson d) S"
  by (simp add: encryptPasswordEntry_def sealValue_def)

text \<open>The decipher is handed exactly what the cipher produced: opening a sealed value
  with any secret comes down to one call of the decipher.\<close>

lemma decrypt_sealValue:
  assumes b64: "base64_roundtrip P"
  shows "decryptPasswordEntry P (sealValue P rndSalt rndIV v S) S' =
           (case gcmDecrypt P (deriveKey P S' (toBase64 P rndSalt)) rndIV rndSalt
                   (fst (gcmEncrypt P (deriveKey P S (toBase64 P rndSalt)) rndIV rndSalt
                           (jsonStringify P v)))
                   (snd (gcmEncrypt P (deriveKey P S (toBase64 P rndSalt)) rndIV rndSalt
                           (jsonStringify P v))) of
              None \<Rightarrow> Inl (DecryptionFailed CipherFailure)
            | Some decrypted \<Rightarrow>
                (case jsonParse P decrypted of
                   None \<Rightarrow> Inl (DecryptionFailed JsonSyntax)
                 | Some data \<Rightarrow>
                     if falsy data \<or> \<not> isStringValue (getProp data ''title'')
                          \<or> \<not> isArray (getProp data ''fields'')
                     then Inl (DecryptionFailed InvalidStructure)
                     else Inr data))"
proof -
  have r: "\<And>b. fromBase64 P (toBase64 P b) = b"
    using b64 by (simp add: base64_roundtrip_def)
  show ?thesis
    by (simp add: decryptPasswordEntry_def sealValue_def generateSalt_def generateIV_def r
          Let_def split_beta)
qed

lemma open_sealed:
  assumes b64: "base64_roundtrip P" and kdf: "kdf_length P" and aead: "aead_correct P"
    and ivlen: "length rndIV = IV_LENGTH"
    and js: "jsonParse P (jsonStringify P (dataToJson d)) = Some (dataToJson d)"
  shows "decryptPasswordEntry P (encryptPasswordEntry P rndSalt rndIV d S) S = Inr (dataToJson d)"
proof -
  have klen: "length (deriveKey P S (toBase64 P rndSalt)) = KEY_LENGTH"
    using kdf by (rule deriveKey_length)
  have dec: "gcmDecrypt P (deriveKey P S (toBase64 P rndSalt)) rndIV rndSalt
               (fst (gcmEncrypt P (deriveKey P S (toBase64 P rndSalt)) rndIV rndSalt
                       (jsonStringify P (dataToJson d))))
               (snd (gcmEncrypt P (deriveKey P S (toBase64 P rndSalt)) rndIV rndSalt
                       (jsonStringify P (dataToJson d))))
             = Some (jsonStringify P (dataToJson d))"
    using aead klen ivlen unfolding aead_correct_def by blast
  have valid: "\<not> falsy (dataToJson d) \<and> isStringValue (getProp (dataToJson d) ''title'')
                \<and> isArray (getProp (dataToJson d) ''fields'')"
    by (simp add: dataToJson_def)
  show ?thesis
    using dec js valid
    by (simp add: encryptPasswordEntry_sealValue decrypt_sealValue[OF b64])
qed





text \<open>Fresh draws give fresh salt and vector texts in the envelope.\<close>

lemma envelope_salt_iv_distinct:
  assumes b64: "base64_roundtrip P" and "rndSalt \<noteq> rndSalt'" and "rndIV \<noteq> rndIV'"
  shows "EncryptedData.salt (encryptPasswordEntry P rndSalt rndIV d S)
           \<noteq> EncryptedData.salt (encryptPasswordEntry P rndSalt' rndIV' d S)
       \<and> EncryptedData.iv (encryptPasswordEntry P rndSalt rndIV d S)
           \<noteq> EncryptedData.iv (encryptPasswordEntry P rndSalt' rndIV' d S)"
proof -
  have inj: "toBase64 P a = toBase64 P b \<Longrightarrow> a = b" for a b
    using b64 unfolding base64_roundtrip_def by metis
  show ?thesis
    using assms(2,3) inj
    by (auto simp: encryptPasswordEntry_def generateSalt_def generateIV_def Let_def split_beta)
qed

subsection \<open>The instance meets the assumptions\<close>

lemma modelFromBase64_plain:
  "c \<noteq> CHR ''='' \<Longrightarrow> modelFromBase64 (c # s) = c # modelFromBase64 s"
  by (cases s) simp_all

lemma modelFromBase64_modelToBase64: "modelFromBase64 (modelToBase64 b) = b"
  by (induction b) (simp_all add: modelToBase64_def modelFromBase64_plain)

lemma model_base64_roundtrip: "base64_roundtrip modelPrims"
  by (simp add: base64_roundtrip_def modelPrims_def modelFromBase64_modelToBase64)

lemma model_base64_alphabet: "base64_alphabet modelPrims"
  by (auto simp: base64_alphabet_def modelPrims_def modelToBase64_def)

lemma model_kdf_length: "kdf_length modelPrims"
  by (auto simp: kdf_length_def modelPrims_def)

lemma model_aead_correct: "aead_correct modelPrims"
  by (simp add: aead_correct_def modelPrims_def modelGcmEncrypt_def modelGcmDecrypt_def)

lemma model_parse_mail:
  "jsonParse modelPrims (jsonStringify modelPrims (dataToJson mailEntry)) = Some (dataToJson mailEntry)"
  by (simp add: modelPrims_def modelParse_def)

lemma model_parse_loose:
  "jsonParse modelPrims (jsonStringify modelPrims looseValue) = Some looseValue"
  by (simp add: modelPrims_def modelParse_def looseValue_def dataToJson_def mailEntry_def
        fieldToJson_def)

lemma model_parse_titleOnly:
  "jsonParse modelPrims (jsonStringify modelPrims titleOnlyValue) = Some titleOnlyValue"
  by (simp add: modelPrims_def modelParse_def looseValue_def titleOnlyValue_def dataToJson_def
        mailEntry_def fieldToJson_def)

lemma model_open_sealed_value:
  assumes "jsonParse modelPrims (jsonStringify modelPrims v) = Some v"
  shows "gcmDecrypt modelPrims (deriveKey modelPrims S (EncryptedData.salt (sealValue modelPrims rs ri v S)))
           (fromBase64 modelPrims (EncryptedData.iv (sealValue modelPrims rs ri v S)))
           (fromBase64 modelPrims (EncryptedData.salt (sealValue modelPrims rs ri v S)))
           (fromBase64 modelPrims (EncryptedData.encryptedData (sealValue modelPrims rs ri v S)))
           (fromBase64 modelPrims (EncryptedData.authTag (sealValue modelPrims rs ri v S)))
         = Some (jsonStringify modelPrims v)"
  by (simp add: sealValue_def generateSalt_def generateIV_def Let_def modelPrims_def
        modelGcmEncrypt_def modelGcmDecrypt_def modelFromBase64_modelToBase64)

lemma model_key_secret:
  "pbkdf2Sync modelPrims ''Sup3rSecret!'' salt0 PBKDF2_ITERATIONS KEY_LENGTH
     = ''Sup3rSecret!'' @ replicate 4 (CHR 0x00) @ ''0123456789abcdef''"
  by (simp add: pbkdf2Sync_def hmacKey_def modelPrims_def salt0_def KEY_LENGTH_def)

lemma model_key_token:
  "pbkdf2Sync modelPrims token0 salt0 PBKDF2_ITERATIONS KEY_LENGTH
     = ''11111111-1111-410123456789abcdef''"
  by (simp add: pbkdf2Sync_def hmacKey_def modelPrims_def token0_def salt0_def KEY_LENGTH_def)

lemma model_refuses_token:
  "cipherRefuses modelPrims
     (pbkdf2Sync modelPrims ''Sup3rSecret!'' salt0 PBKDF2_ITERATIONS KEY_LENGTH)
     (pbkdf2Sync modelPrims token0 salt0 PBKDF2_ITERATIONS KEY_LENGTH) iv0 [] ''Sup3rSecret!''"
proof -
  have "gcmEncrypt modelPrims = modelGcmEncrypt" and "gcmDecrypt modelPrims = modelGcmDecrypt"
    by (simp_all add: modelPrims_def)
  then show ?thesis
    unfolding cipherRefuses_def model_key_secret model_key_token
    by (simp add: modelGcmEncrypt_def modelGcmDecrypt_def)
qed





lemma model_decrypt_sealed:
  assumes "jsonParse modelPrims (jsonStringify modelPrims v) = Some v"
  shows "decryptPasswordEntry modelPrims (sealValue modelPrims rs ri v S) S =
           (if falsy v \<or> \<not> isStringValue (getProp v ''title'') \<or> \<not> isArray (getProp v ''fields'')
            then Inl (DecryptionFailed InvalidStructure) else Inr v)"
  unfolding decryptPasswordEntry_def Let_def model_open_sealed_value[OF assms]
  by (simp add: assms)

lemma model_login:
  "snd (createSession modelPrims draws0 100 store1 ''Sup3rSecret!'') = Inr (token0, 14400100)"
  by (simp add: createSession_def storageVerifyMasterPassword_def getMasterPassword_def
        verifyMasterPassword_def store1_def insertSession_def Let_def split_beta draws0_def
        token0_def modelPrims_def)

lemma session_secret_under_token:
  assumes b64: "base64_roundtrip P" and alpha: "base64_alphabet P"
    and refuses: "cipherRefuses P (pbkdf2Sync P S rs PBKDF2_ITERATIONS KEY_LENGTH)
                    (pbkdf2Sync P token rs PBKDF2_ITERATIONS KEY_LENGTH) ri [] S"
  shows "\<exists>c. decryptMasterPasswordFromSession P
                (fst (encryptMasterPasswordForSession P rs ri S))
                (snd (encryptMasterPasswordForSession P rs ri S)) token
              = Inl (SessionDecryptionFailed c)"
proof -
  obtain ct tag where enc:
    "gcmEncrypt P (pbkdf2Sync P S rs PBKDF2_ITERATIONS KEY_LENGTH) ri [] S = (ct, tag)"
    by (cases "gcmEncrypt P (pbkdf2Sync P S rs PBKDF2_ITERATIONS KEY_LENGTH) ri [] S")
  have r: "\<And>b. fromBase64 P (toBase64 P b) = b"
    using b64 by (simp add: base64_roundtrip_def)
  have a: "\<And>b. CHR '':'' \<notin> set (toBase64 P b)"
    using alpha by (simp add: base64_alphabet_def)
  have dec: "gcmDecrypt P (pbkdf2Sync P token rs PBKDF2_ITERATIONS KEY_LENGTH) ri [] ct tag = None"
    using refuses enc by (simp add: cipherRefuses_def)
  have e: "encryptMasterPasswordForSession P rs ri S =
             (toBase64 P ct @ CHR '':'' # toBase64 P ri @ CHR '':'' # toBase64 P tag, toBase64 P rs)"
    using enc
    by (simp add: encryptMasterPasswordForSession_def generateSalt_def generateIV_def r Let_def)
  have sp: "splitString (CHR '':'')
              (toBase64 P ct @ CHR '':'' # toBase64 P ri @ CHR '':'' # toBase64 P tag)
              = [toBase64 P ct, toBase64 P ri, toBase64 P tag]"
    by (simp add: splitString_append splitString_no_sep a)
  show ?thesis
    using dec by (simp add: e sp decryptMasterPasswordFromSession_def at_def r Let_def)
qed

text \<open>After a successful \<open>createSession\<close> the lookup by the issued token finds the row just
  inserted, because the table admits no second row with that token.\<close>

lemma lookup_after_createSession:
  assumes login: "createSession P rnd now st S = (st', Inr (token, expires))"
    and time: "now' < expires"
  shows "verifySession st' now' token
       \<and> getMasterPasswordFromSession P st' now' token
           = decryptMasterPasswordFromSession P
               (fst (encryptMasterPasswordForSession P (saltBytes rnd) (ivBytes rnd) S))
               (snd (encryptMasterPasswordForSession P (saltBytes rnd) (ivBytes rnd) S)) token"
proof -
  obtain emp ss where
    e: "encryptMasterPasswordForSession P (saltBytes rnd) (ivBytes rnd) S = (emp, ss)"
    by (cases "encryptMasterPasswordForSession P (saltBytes rnd) (ivBytes rnd) S")
  define row where
    "row = \<lparr>Session.id' = sessionUuid rnd,
            sessionToken = tokenUuid1 rnd @ ''-'' @ tokenUuid2 rnd,
            encryptedMasterPassword = emp, sessionSalt = ss, createdAt = now,
            expiresAt = now + 4 * 60 * 60 * 1000, isActive = True\<rparr>"
  from login e have ins: "insertSession st row = Some st'"
    and tok: "token = tokenUuid1 rnd @ ''-'' @ tokenUuid2 rnd"
    and ex: "expires = now + 4 * 60 * 60 * 1000"
    by (auto simp: createSession_def Let_def row_def split: if_splits option.splits)
  from ins have tbl: "sessionsTable st' = sessionsTable st @ [row]"
    and fresh: "sessionToken row \<notin> sessionToken ` set (sessionsTable st)"
    by (auto simp: insertSession_def split: if_splits)
  have none: "filter (\<lambda>s. Session.sessionToken s = token \<and> Session.isActive s
                            \<and> Session.expiresAt s > now') (sessionsTable st) = []"
    using fresh tok by (auto simp: filter_empty_conv row_def image_iff)
  have sel: "filter (\<lambda>s. Session.sessionToken s = token \<and> Session.isActive s
                           \<and> Session.expiresAt s > now') (sessionsTable st') = [row]"
    using none time ex tok by (simp add: tbl row_def)
  have v: "verifySession st' now' token"
    by (simp add: verifySession_def sel)
  have g: "getMasterPasswordFromSession P st' now' token
             = decryptMasterPasswordFromSession P emp ss token"
    by (simp add: getMasterPasswordFromSession_def sel row_def)
  from v g show ?thesis by (simp only: e fst_conv snd_conv simp_thms)
qed

subsection \<open>Recovering the secret of a session\<close>

text \<open>
  C1. The claim is that the secret recovered from the session that a login created is the
  secret that was passed to the login. The code does not do that.
  \<open>encryptMasterPasswordForSession\<close> derives the session key from the master password,
  \<open>decryptMasterPasswordFromSession\<close> derives it from the session token ("Derive the same
  session key"). So the lookup for the token just issued ends in the decipher being keyed
  differently from the cipher, and whenever the decipher refuses that, recovery throws
  "Session decryption failed" and returns no secret.
\<close>

theorem recover_after_login_fails:
  assumes b64: "base64_roundtrip P" and alpha: "base64_alphabet P"
    and login: "createSession P rnd now st S = (st', Inr (token, expires))"
    and time: "now' < expires"
    and refuses: "cipherRefuses P (pbkdf2Sync P S (saltBytes rnd) PBKDF2_ITERATIONS KEY_LENGTH)
                    (pbkdf2Sync P token (saltBytes rnd) PBKDF2_ITERATIONS KEY_LENGTH)
                    (ivBytes rnd) [] S"
  shows "\<exists>c. getMasterPasswordFromSession P st' now' token = Inl (SessionDecryptionFailed c)"
proof -
  from lookup_after_createSession[OF login time]
  have "getMasterPasswordFromSession P st' now' token
          = decryptMasterPasswordFromSession P
              (fst (encryptMasterPasswordForSession P (saltBytes rnd) (ivBytes rnd) S))
              (snd (encryptMasterPasswordForSession P (saltBytes rnd) (ivBytes rnd) S)) token"
    by blast
  then show ?thesis
    using session_secret_under_token[OF b64 alpha refuses] by (simp only:)
qed

text \<open>C1, at a concrete input: a login with \<open>Sup3rSecret!\<close> at time 100 on a store holding
  its hash, and the recovery at time 200 with the token issued.\<close>

theorem recover_after_login_fails_witness:
  "\<exists>c. getMasterPasswordFromSession modelPrims
          (fst (createSession modelPrims draws0 100 store1 ''Sup3rSecret!'')) 200 token0
        = Inl (SessionDecryptionFailed c)"
proof -
  have login: "createSession modelPrims draws0 100 store1 ''Sup3rSecret!''
                 = (fst (createSession modelPrims draws0 100 store1 ''Sup3rSecret!''),
                    Inr (token0, 14400100))"
    by (simp add: prod_eq_iff model_login)
  have time: "(200::int) < 14400100" by simp
  have refuses: "cipherRefuses modelPrims
                   (pbkdf2Sync modelPrims ''Sup3rSecret!'' (saltBytes draws0) PBKDF2_ITERATIONS KEY_LENGTH)
                   (pbkdf2Sync modelPrims token0 (saltBytes draws0) PBKDF2_ITERATIONS KEY_LENGTH)
                   (ivBytes draws0) [] ''Sup3rSecret!''"
    using model_refuses_token by (simp add: draws0_def)
  show ?thesis
    by (rule recover_after_login_fails[OF model_base64_roundtrip model_base64_alphabet
          login time refuses])
qed


subsection \<open>The scenario: configure, log in, create an entry, list\<close>

text \<open>
  C2. The claim is that, from the empty store, after configuring \<open>Sup3rSecret!\<close> and a
  successful login, \<open>createPasswordEntry\<close> with the issued token succeeds and a following
  \<open>getAllPasswordEntries\<close> returns the entry. The login does succeed, but both later
  calls pass \<open>verifySession\<close> and then throw in \<open>getMasterPasswordFromSession\<close>, for the
  reason given under C1: the entry is never stored and nothing is listed.
\<close>

theorem scenario_create_entry_fails:
  assumes b64: "base64_roundtrip P" and alpha: "base64_alphabet P"
    and bcrypt: "bcryptCompare P ''Sup3rSecret!'' (bcryptHash P ''Sup3rSecret!'' bsalt)"
    and refuses: "cipherRefuses P
                    (pbkdf2Sync P ''Sup3rSecret!'' (saltBytes rnd) PBKDF2_ITERATIONS KEY_LENGTH)
                    (pbkdf2Sync P (tokenUuid1 rnd @ ''-'' @ tokenUuid2 rnd) (saltBytes rnd)
                       PBKDF2_ITERATIONS KEY_LENGTH)
                    (ivBytes rnd) [] ''Sup3rSecret!''"
    and t2: "t2 < t1 + 4 * 60 * 60 * 1000" and t3: "t3 < t1 + 4 * 60 * 60 * 1000"
  shows "let st1 = fst (setupMasterPassword P bsalt mid t0 emptyStore ''Sup3rSecret!'');
             login = createSession P rnd t1 st1 ''Sup3rSecret!'';
             st2 = fst login;
             token = tokenUuid1 rnd @ ''-'' @ tokenUuid2 rnd
         in snd login = Inr (token, t1 + 4 * 60 * 60 * 1000)
          \<and> (\<exists>c. createPasswordEntry P eid rs ri t2 st2
                     \<lparr>title = ''Mail'',
                      fields' = [\<lparr>name = ''user'', fieldValue = ''a@b.com'',
                                  isPassword = False\<rparr>]\<rparr>
                     token
                   = (st2, Inl (SessionDecryptionFailed c)))
          \<and> (\<exists>c. getAllPasswordEntries P st2 t3 token = Inl (SessionDecryptionFailed c))
          \<and> passwordEntriesTable st2 = []"
proof -
  define S where "S = ''Sup3rSecret!''"
  define st1 where "st1 = fst (setupMasterPassword P bsalt mid t0 emptyStore S)"
  define token where "token = tokenUuid1 rnd @ ''-'' @ tokenUuid2 rnd"
  obtain emp ss where
    e: "encryptMasterPasswordForSession P (saltBytes rnd) (ivBytes rnd) S = (emp, ss)"
    by (cases "encryptMasterPasswordForSession P (saltBytes rnd) (ivBytes rnd) S")
  have st1: "st1 = emptyStore\<lparr>masterPasswordTable :=
                [\<lparr>MasterPassword.id' = mid, hashedPassword = bcryptHash P S bsalt,
                  salt = bsalt, createdAt = t0\<rparr>]\<rparr>"
    by (simp add: st1_def setupMasterPassword_def getMasterPassword_def emptyStore_def
          createMasterPassword_def insertMasterPassword_def hashMasterPassword_def Let_def)
  have ver: "storageVerifyMasterPassword P st1 S"
    using bcrypt
    by (simp add: st1 storageVerifyMasterPassword_def getMasterPassword_def
          verifyMasterPassword_def S_def)
  obtain st2 where
    login: "createSession P rnd t1 st1 S = (st2, Inr (token, t1 + 4 * 60 * 60 * 1000))"
    using ver e
    by (simp add: createSession_def Let_def insertSession_def st1 emptyStore_def token_def)
  have entries: "passwordEntriesTable st2 = []"
    using login ver e
    by (auto simp: createSession_def Let_def insertSession_def st1 emptyStore_def)
  have ref: "cipherRefuses P (pbkdf2Sync P S (saltBytes rnd) PBKDF2_ITERATIONS KEY_LENGTH)
               (pbkdf2Sync P token (saltBytes rnd) PBKDF2_ITERATIONS KEY_LENGTH)
               (ivBytes rnd) [] S"
    using refuses by (simp only: S_def token_def)
  obtain c where dec:
    "decryptMasterPasswordFromSession P
       (fst (encryptMasterPasswordForSession P (saltBytes rnd) (ivBytes rnd) S))
       (snd (encryptMasterPasswordForSession P (saltBytes rnd) (ivBytes rnd) S)) token
     = Inl (SessionDecryptionFailed c)"
    using session_secret_under_token[OF b64 alpha ref] by blast
  have l2: "verifySession st2 t2 token
            \<and> getMasterPasswordFromSession P st2 t2 token = Inl (SessionDecryptionFailed c)"
    using lookup_after_createSession[OF login t2] dec by simp
  have l3: "verifySession st2 t3 token
            \<and> getMasterPasswordFromSession P st2 t3 token = Inl (SessionDecryptionFailed c)"
    using lookup_after_createSession[OF login t3] dec by simp
  have a: "createPasswordEntry P eid rs ri t2 st2 d token
             = (st2, Inl (SessionDecryptionFailed c))" for d
    using l2 by (simp add: createPasswordEntry_def)
  have b: "getAllPasswordEntries P st2 t3 token = Inl (SessionDecryptionFailed c)"
    using l3 by (simp add: getAllPasswordEntries_def)
  show ?thesis
    unfolding Let_def
    using login a b entries
    by (simp only: S_def[symmetric] st1_def[symmetric] token_def[symmetric] fst_conv snd_conv)
       blast
qed

text \<open>C2, at a concrete input: setup at time 0, login at 100, \<open>createPasswordEntry\<close> at 200,
  \<open>getAllPasswordEntries\<close> at 300.\<close>

theorem scenario_create_entry_fails_witness:
  "let st1 = fst (setupMasterPassword modelPrims ''bsalt'' ''m-1'' 0 emptyStore ''Sup3rSecret!'');
       login = createSession modelPrims draws0 100 st1 ''Sup3rSecret!'';
       st2 = fst login;
       token = tokenUuid1 draws0 @ ''-'' @ tokenUuid2 draws0
   in snd login = Inr (token, 100 + 4 * 60 * 60 * 1000)
    \<and> (\<exists>c. createPasswordEntry modelPrims ''e-1'' salt0 iv0 200 st2
               \<lparr>title = ''Mail'',
                fields' = [\<lparr>name = ''user'', fieldValue = ''a@b.com'', isPassword = False\<rparr>]\<rparr>
               token
             = (st2, Inl (SessionDecryptionFailed c)))
    \<and> (\<exists>c. getAllPasswordEntries modelPrims st2 300 token = Inl (SessionDecryptionFailed c))
    \<and> passwordEntriesTable st2 = []"
proof -
  have bcrypt: "bcryptCompare modelPrims ''Sup3rSecret!''
                  (bcryptHash modelPrims ''Sup3rSecret!'' ''bsalt'')"
    by (simp add: modelPrims_def)
  have refuses: "cipherRefuses modelPrims
                   (pbkdf2Sync modelPrims ''Sup3rSecret!'' (saltBytes draws0)
                      PBKDF2_ITERATIONS KEY_LENGTH)
                   (pbkdf2Sync modelPrims (tokenUuid1 draws0 @ ''-'' @ tokenUuid2 draws0)
                      (saltBytes draws0) PBKDF2_ITERATIONS KEY_LENGTH)
                   (ivBytes draws0) [] ''Sup3rSecret!''"
    using model_refuses_token by (simp add: draws0_def token0_def)
  have t2: "(200::int) < 100 + 4 * 60 * 60 * 1000" by simp
  have t3: "(300::int) < 100 + 4 * 60 * 60 * 1000" by simp
  show ?thesis
    by (rule scenario_create_entry_fails[OF model_base64_roundtrip model_base64_alphabet
          bcrypt refuses t2 t3])
qed

subsection \<open>Sealing and opening envelopes\<close>

text \<open>
  C3. For every payload and every secret, opening a sealed envelope with the same secret
  returns the payload: \<open>decryptPasswordEntry (encryptPasswordEntry P S) S = P\<close>. The value
  returned is the object that \<open>JSON.parse\<close> builds, which is the payload. The hypotheses
  are the facts about the libraries: base64 decodes what it encoded, PBKDF2 returns a key of
  the length asked for, AES-GCM decrypts what it encrypted, \<open>randomBytes(IV_LENGTH)\<close>
  returns that many bytes, and \<open>JSON.parse\<close> reads back what \<open>JSON.stringify\<close> wrote for
  this payload.
\<close>

theorem seal_open_roundtrip:
  assumes "base64_roundtrip P" and "kdf_length P" and "aead_correct P"
    and "length rndIV = IV_LENGTH"
    and "jsonParse P (jsonStringify P (dataToJson d)) = Some (dataToJson d)"
  shows "decryptPasswordEntry P (encryptPasswordEntry P rndSalt rndIV d S) S = Inr (dataToJson d)"
  using assms by (rule open_sealed)

text \<open>C3, at a concrete input: the entry \<open>Mail\<close> under the secret \<open>Sup3rSecret!\<close>.\<close>

theorem seal_open_roundtrip_witness:
  "decryptPasswordEntry modelPrims
     (encryptPasswordEntry modelPrims salt0 iv0 mailEntry ''Sup3rSecret!'') ''Sup3rSecret!''
   = Inr (dataToJson mailEntry)"
proof -
  have ivlen: "length iv0 = IV_LENGTH" by (simp add: iv0_def IV_LENGTH_def)
  show ?thesis
    by (rule seal_open_roundtrip[OF model_base64_roundtrip model_kdf_length model_aead_correct
          ivlen model_parse_mail])
qed




text \<open>
  With the assumptions of the round trip added, the outcome is decided by the keys alone: the envelope
  opens when the two keys are equal and the decipher's error is thrown when they differ.
\<close>

lemma open_decided_by_key:
  assumes b64: "base64_roundtrip P" and kdf: "kdf_length P" and aead: "aead_correct P"
    and commit: "aead_key_committing P"
    and ivlen: "length rndIV = IV_LENGTH"
    and js: "jsonParse P (jsonStringify P (dataToJson d)) = Some (dataToJson d)"
  shows "decryptPasswordEntry P (encryptPasswordEntry P rndSalt rndIV d S) S' =
           (if pbkdf2Sync P S' rndSalt PBKDF2_ITERATIONS KEY_LENGTH
                 = pbkdf2Sync P S rndSalt PBKDF2_ITERATIONS KEY_LENGTH
            then Inr (dataToJson d) else Inl (DecryptionFailed CipherFailure))"
proof (cases "pbkdf2Sync P S' rndSalt PBKDF2_ITERATIONS KEY_LENGTH
                = pbkdf2Sync P S rndSalt PBKDF2_ITERATIONS KEY_LENGTH")
  case True
  then have k: "deriveKey P S' (toBase64 P rndSalt) = deriveKey P S (toBase64 P rndSalt)"
    by (simp add: deriveKey_encoded_salt[OF b64])
  have "decryptPasswordEntry P (encryptPasswordEntry P rndSalt rndIV d S) S'
          = decryptPasswordEntry P (encryptPasswordEntry P rndSalt rndIV d S) S"
    by (simp add: encryptPasswordEntry_sealValue decrypt_sealValue[OF b64] k)
  with True show ?thesis
    using open_sealed[OF b64 kdf aead ivlen js] by simp
next
  case False
  then have "deriveKey P S' (toBase64 P rndSalt) \<noteq> deriveKey P S (toBase64 P rndSalt)"
    by (simp add: deriveKey_encoded_salt[OF b64])
  with commit
  have "cipherRefuses P (deriveKey P S (toBase64 P rndSalt))
          (deriveKey P S' (toBase64 P rndSalt)) rndIV rndSalt (jsonStringify P (dataToJson d))"
    unfolding aead_key_committing_def by blast
  with False show ?thesis
    by (simp add: encryptPasswordEntry_sealValue decrypt_sealValue[OF b64] cipherRefuses_def)
qed

text \<open>
  C8, as stated: after tag verification and parsing, a decrypted value whose list of fields
  holds a record without a string value or without the flag is refused with
  \<open>FormatError\<close>. It is not: the "Basic validation" looks at the title and at whether
  \<open>fields\<close> is an array, never at the elements. Here the one field has a name only, and
  the value is returned.
\<close>

theorem structural_check_counterexample:
  "decryptPasswordEntry modelPrims
     (sealValue modelPrims salt0 iv0
        (JObject [(''title'', JString ''Mail''),
                  (''fields'', JArray [JObject [(''name'', JString ''user'')]])])
        ''Sup3rSecret!'')
     ''Sup3rSecret!''
   = Inr (JObject [(''title'', JString ''Mail''),
                   (''fields'', JArray [JObject [(''name'', JString ''user'')]])])"
  using model_decrypt_sealed[OF model_parse_loose, of salt0 iv0 "''Sup3rSecret!''"]
  by (simp add: looseValue_def)

text \<open>
  C8, amended: after tag verification and parsing succeed, \<open>decryptPasswordEntry\<close> returns
  the parsed value exactly when it is an object whose \<open>title\<close> is a string and whose
  \<open>fields\<close> is an array, and throws "Invalid decrypted data structure" (\<open>FormatError\<close>)
  on every other value. The elements of \<open>fields\<close> are not inspected.
\<close>

theorem structural_check:
  assumes "gcmDecrypt P (deriveKey P S (EncryptedData.salt env))
             (fromBase64 P (EncryptedData.iv env)) (fromBase64 P (EncryptedData.salt env))
             (fromBase64 P (EncryptedData.encryptedData env))
             (fromBase64 P (EncryptedData.authTag env)) = Some txt"
    and "jsonParse P txt = Some v"
  shows "decryptPasswordEntry P env S =
           (if (\<exists>t fs. getProp v ''title'' = Some (JString t)
                        \<and> getProp v ''fields'' = Some (JArray fs))
            then Inr v else Inl (DecryptionFailed InvalidStructure))
         \<and> kind (DecryptionFailed InvalidStructure) = FormatError"
  using assms
  by (auto simp: decryptPasswordEntry_def Let_def isStringValue_iff isArray_iff falsy_getProp)

text \<open>C8 amended, at a concrete input: an envelope whose plaintext is an object with a
  title and no \<open>fields\<close>.\<close>

theorem structural_check_witness:
  "decryptPasswordEntry modelPrims
     (sealValue modelPrims salt0 iv0 titleOnlyValue ''Sup3rSecret!'') ''Sup3rSecret!''
   = Inl (DecryptionFailed InvalidStructure)"
  using structural_check[OF model_open_sealed_value[OF model_parse_titleOnly,
            of "''Sup3rSecret!''" salt0 iv0] model_parse_titleOnly]
  by (simp add: titleOnlyValue_def)

subsection \<open>The format of the stored session secret\<close>

text \<open>
  C10, as stated: every string that does not split on \<open>:\<close> into three non-empty
  components is rejected. The destructuring takes the first three components and ignores
  the rest, so a string of four components is accepted, and when its first three are the
  ciphertext, vector and tag made under the key of the token, the secret is returned.
\<close>

theorem session_format_check_counterexample:
  "splitString (CHR '':'')
     ''!terceSr3puS:abcdefghijkl:11111111-1111-410123456789abcdefabcdefghijklSup3rSecret!:extra''
     = [''!terceSr3puS'', ''abcdefghijkl'',
        ''11111111-1111-410123456789abcdefabcdefghijklSup3rSecret!'', ''extra'']
   \<and> decryptMasterPasswordFromSession modelPrims
        ''!terceSr3puS:abcdefghijkl:11111111-1111-410123456789abcdefabcdefghijklSup3rSecret!:extra''
        ''0123456789abcdef0123456789abcdef'' token0
      = Inr ''Sup3rSecret!''"
proof -
  have sp: "splitString (CHR '':'')
     ''!terceSr3puS:abcdefghijkl:11111111-1111-410123456789abcdefabcdefghijklSup3rSecret!:extra''
     = [''!terceSr3puS'', ''abcdefghijkl'',
        ''11111111-1111-410123456789abcdefabcdefghijklSup3rSecret!'', ''extra'']"
    by simp
  have f: "fromBase64 modelPrims = modelFromBase64" "gcmDecrypt modelPrims = modelGcmDecrypt"
    by (simp_all add: modelPrims_def)
  have s: "modelFromBase64 ''0123456789abcdef0123456789abcdef''
             = ''0123456789abcdef0123456789abcdef''"
    by simp
  show ?thesis
    unfolding decryptMasterPasswordFromSession_def sp
    by (simp add: at_def f s model_key_token[unfolded salt0_def] modelGcmDecrypt_def)
qed

text \<open>
  C10, amended: for every session salt, session token and behaviour of the library,
  \<open>decryptMasterPasswordFromSession\<close> throws "Invalid encrypted session data format"
  exactly on the strings whose split on \<open>:\<close> has fewer than three components or an empty
  one among the first three (so on the empty string, on a string without a colon, and on
  an empty ciphertext, vector or tag); components after the third are ignored. The result
  does not depend on the primitives: no key is derived and nothing is decrypted before the
  check.
\<close>

theorem session_format_check:
  "decryptMasterPasswordFromSession P s sessionSalt' token
     = Inl (SessionDecryptionFailed InvalidFormat)
   \<longleftrightarrow> \<not> (\<exists>e i t rest. splitString (CHR '':'') s = e # i # t # rest
                            \<and> e \<noteq> [] \<and> i \<noteq> [] \<and> t \<noteq> [])"
proof (cases "splitString (CHR '':'') s")
  case Nil
  then show ?thesis by (simp add: splitString_nonempty)
next
  case first: (Cons e r1)
  show ?thesis
  proof (cases r1)
    case Nil
    with first show ?thesis by (simp add: decryptMasterPasswordFromSession_def at_def)
  next
    case second: (Cons i r2)
    show ?thesis
    proof (cases r2)
      case Nil
      with first second show ?thesis
        by (simp add: decryptMasterPasswordFromSession_def at_def)
    next
      case (Cons t r3)
      with first second show ?thesis
        by (auto simp: decryptMasterPasswordFromSession_def at_def Let_def split: option.splits)
    qed
  qed
qed

text \<open>C10 amended, at concrete inputs: the empty string, a string without a colon, a string
  with an empty vector.\<close>

theorem session_format_check_witness:
  "decryptMasterPasswordFromSession modelPrims [] ''salt'' token0
     = Inl (SessionDecryptionFailed InvalidFormat)
   \<and> decryptMasterPasswordFromSession modelPrims ''abc'' ''salt'' token0
     = Inl (SessionDecryptionFailed InvalidFormat)
   \<and> decryptMasterPasswordFromSession modelPrims ''a::c'' ''salt'' token0
     = Inl (SessionDecryptionFailed InvalidFormat)"
  using session_format_check[of modelPrims "[]" "''salt''" token0]
    session_format_check[of modelPrims "''abc''" "''salt''" token0]
    session_format_check[of modelPrims "''a::c''" "''salt''" token0]
  by simp

subsection \<open>Sessions\<close>

text \<open>
  C6. For every store and every token, \<open>verifySession\<close> returns true if and only if a
  session row with exactly that token exists that has \<open>isActive = true\<close> and \<open>expiresAt\<close>
  strictly after the current time; in every other case it returns false.
\<close>

theorem verifySession_iff:
  "verifySession st now token \<longleftrightarrow>
     (\<exists>s \<in> set (sessionsTable st).
        Session.sessionToken s = token \<and> Session.isActive s = True
        \<and> Session.expiresAt s > now)"
  unfolding verifySession_def Let_def by (simp only: take1_filter_length) simp

text \<open>C6, at concrete inputs: a live session, the same session at its expiry time, and a
  token that no row has.\<close>

theorem verifySession_iff_witness:
  "verifySession store0 100 ''tok'' \<and> \<not> verifySession store0 14400000 ''tok''
   \<and> \<not> verifySession store0 100 ''other''"
  using verifySession_iff[of store0 100 "''tok''"] verifySession_iff[of store0 14400000 "''tok''"]
    verifySession_iff[of store0 100 "''other''"]
  by (simp add: store0_def session0_def)

text \<open>
  C7. When no master password is configured, and for every candidate that does not verify
  against the stored hash, \<open>createSession\<close> throws "Invalid master password - session
  creation denied" (\<open>AuthenticationError\<close>) and leaves the store, and so the sessions table,
  as it was.
\<close>

theorem createSession_denied:
  assumes "masterPasswordTable st = []
           \<or> (\<exists>r rs. masterPasswordTable st = r # rs
                      \<and> \<not> bcryptCompare P S (hashedPassword r))"
  shows "createSession P rnd now st S = (st, Inl InvalidMasterPassword)
         \<and> kind InvalidMasterPassword = AuthenticationError"
  using assms
  by (auto simp: createSession_def storageVerifyMasterPassword_def getMasterPassword_def
        verifyMasterPassword_def)

text \<open>C7, at concrete inputs: a login on the empty store, and a login with a wrong secret
  on a store holding the hash of \<open>Sup3rSecret!\<close>.\<close>

theorem createSession_denied_witness:
  "createSession modelPrims draws0 100 emptyStore ''Sup3rSecret!''
     = (emptyStore, Inl InvalidMasterPassword)
   \<and> createSession modelPrims draws0 100 store1 ''wrong'' = (store1, Inl InvalidMasterPassword)"
  using createSession_denied[of emptyStore modelPrims "''Sup3rSecret!''" draws0 100]
    createSession_denied[of store1 modelPrims "''wrong''" draws0 100]
  by (simp add: emptyStore_def store1_def modelPrims_def)

subsection \<open>Deleting all entries\<close>

text \<open>
  C5, as stated: \<open>deleteAllPasswordEntries\<close> leaves every already expired row unchanged.
  The \<open>update\<close> selects on \<open>isDeleted\<close> alone ("Mark all entries as deleted"), so a row
  that expired and was not yet swept is marked as well.
\<close>

theorem deleteAll_expired_row_counterexample:
  "verifySession store0 100 ''tok''
   \<and> entry0 \<in> set (passwordEntriesTable store0)
   \<and> PasswordEntry.expiresAt entry0 \<le> 100
   \<and> passwordEntriesTable (fst (deleteAllPasswordEntries store0 100 ''tok''))
        = [entry0\<lparr>PasswordEntry.isDeleted := True\<rparr>]
   \<and> entry0\<lparr>PasswordEntry.isDeleted := True\<rparr> \<noteq> entry0"
  by (simp add: deleteAllPasswordEntries_def verifySession_def store0_def session0_def
        entry0_def)

text \<open>
  C5, amended: called with a valid session token, \<open>deleteAllPasswordEntries\<close> sets
  \<open>isDeleted = true\<close> on every row that has \<open>isDeleted = false\<close>, whatever its
  \<open>expiresAt\<close>, changes nothing else in such a row, and leaves every already deleted row
  completely unchanged; no row is added, removed or moved, and the other tables are
  untouched.
\<close>

theorem deleteAll_effect:
  assumes "verifySession st now token"
  shows "let st' = fst (deleteAllPasswordEntries st now token) in
           snd (deleteAllPasswordEntries st now token) = Inr ()
         \<and> masterPasswordTable st' = masterPasswordTable st
         \<and> sessionsTable st' = sessionsTable st
         \<and> length (passwordEntriesTable st') = length (passwordEntriesTable st)
         \<and> (\<forall>i < length (passwordEntriesTable st).
               passwordEntriesTable st' ! i =
                 (if PasswordEntry.isDeleted (passwordEntriesTable st ! i)
                  then passwordEntriesTable st ! i
                  else (passwordEntriesTable st ! i)\<lparr>PasswordEntry.isDeleted := True\<rparr>))"
  using assms by (simp add: deleteAllPasswordEntries_def Let_def)

text \<open>C5 amended, at a concrete input: the store with one live session and one row that is
  not deleted.\<close>

theorem deleteAll_effect_witness:
  "passwordEntriesTable (fst (deleteAllPasswordEntries store0 100 ''tok'')) ! 0
     = entry0\<lparr>PasswordEntry.isDeleted := True\<rparr>
   \<and> snd (deleteAllPasswordEntries store0 100 ''tok'') = Inr ()"
proof -
  have v: "verifySession store0 100 ''tok''"
    by (simp add: verifySession_def store0_def session0_def)
  show ?thesis
    using deleteAll_effect[OF v] by (simp add: Let_def store0_def entry0_def)
qed


end
